theory Spec2Isabelle
  imports Main "HOL-Library.Word" "HOL-Library.Multiset"
begin

section \<open>Values shared by the request handlers\<close>

text \<open>
  A UUID is its 128-bit integer (Python's \<^verbatim>\<open>UUID.int\<close>); a timestamp is a number of
  clock ticks.
\<close>

type_synonym uuid = "128 word"

text \<open>
  A Python exception is carried by what the handlers read from it.  \<^verbatim>\<open>HTTPException\<close>
  has its status code and its detail; every other exception has its \<^verbatim>\<open>str()\<close>.
\<close>

datatype exn =
    HTTPException nat string
  | OtherException string

text \<open>Decimal digits of a natural number, as \<^verbatim>\<open>str(int)\<close> prints them.\<close>

fun str_nat :: "nat \<Rightarrow> string" where
  "str_nat n =
     (if n < 10 then [''0123456789'' ! n]
      else str_nat (n div 10) @ [''0123456789'' ! (n mod 10)])"

declare str_nat.simps [simp del]

text \<open>
  \<^verbatim>\<open>str(e)\<close>.  Starlette's \<^verbatim>\<open>HTTPException.__str__\<close> prints the status code, a colon
  and the detail.
\<close>

fun str_exn :: "exn \<Rightarrow> string" where
  "str_exn (HTTPException status_code detail) = str_nat status_code @ '': '' @ detail"
| "str_exn (OtherException msg) = msg"

text \<open>
  \<^verbatim>\<open>str(uuid)\<close>: the 32 lower-case hexadecimal digits of the integer, grouped
  8-4-4-4-12 by hyphens.
\<close>

fun hex_digits :: "nat \<Rightarrow> nat \<Rightarrow> string" where
  "hex_digits 0 n = []"
| "hex_digits (Suc k) n = hex_digits k (n div 16) @ [''0123456789abcdef'' ! (n mod 16)]"

definition str_uuid :: "uuid \<Rightarrow> string" where
  "str_uuid u =
     (let hex = hex_digits 32 (unat u)
      in take 8 hex @ ''-'' @ take 4 (drop 8 hex) @ ''-'' @ take 4 (drop 12 hex) @ ''-''
         @ take 4 (drop 16 hex) @ ''-'' @ drop 20 hex)"

text \<open>\<^verbatim>\<open>s.startswith(p)\<close>.\<close>

definition startswith :: "string \<Rightarrow> string \<Rightarrow> bool" where
  "startswith s p = (take (length p) s = p)"

text \<open>The values of the dictionaries the handlers return.\<close>

datatype jval =
    JStr string
  | JBool bool
  | JTime int

type_synonym dict = "(string \<times> jval) list"

section \<open>Data model\<close>

text \<open>
  Modelled from the spec: the declarations of the \<^verbatim>\<open>User\<close> and \<^verbatim>\<open>Post\<close> tables
  (\<^verbatim>\<open>app/db.py\<close>) are missing.  The spec gives a post a unique identifier, an
  owning user reference, a caption, a media URL, a media kind, a stored file name and
  creation and update timestamps; the handlers read exactly these attributes.  Of a
  user the handlers read the identifier and the email.
\<close>

record User =
  User_id :: uuid
  User_email :: string

record Post =
  Post_id :: uuid
  Post_user_id :: uuid
  Post_caption :: string
  Post_url :: string
  Post_file_type :: string
  Post_file_name :: string
  Post_created_at :: int
  Post_updated_at :: int

text \<open>
  The multipart file of the request.  Starlette types both attributes as optional; a
  part without a \<^verbatim>\<open>Content-Type\<close> header has \<^verbatim>\<open>content_type = None\<close>.
\<close>

record UploadFile =
  UploadFile_filename :: "string option"
  UploadFile_content_type :: "string option"

text \<open>What the handler reads of the object store's answer.\<close>

record UploadFileResult =
  http_status_code :: nat
  Result_url :: string
  Result_name :: string

text \<open>
  The database session: the rows of the post table, and the objects added to and
  marked for deletion in the session that the next commit writes.
\<close>

record AsyncSession =
  posts :: "Post list"
  new :: "Post list"
  deleted :: "Post list"

text \<open>
  What the collaborators outside the repository do during one request: each call either
  raises or answers.  \<^verbatim>\<open>NamedTemporaryFile\<close> answers with the path of the file it
  created; \<^verbatim>\<open>uuid.UUID\<close> parses a string; \<^verbatim>\<open>uuid4\<close> and \<^verbatim>\<open>utcnow\<close> are the column
  defaults of a new row.
\<close>

record World =
  NamedTemporaryFile :: "exn + string"
  copyfileobj :: "exn option"
  upload_file :: "exn + UploadFileResult"
  execute_raises :: "exn option"
  commit_raises :: "exn option"
  refresh_raises :: "exn option"
  UUID :: "string \<Rightarrow> exn + uuid"
  uuid4 :: uuid
  utcnow :: int

section \<open>The session\<close>

definition add :: "Post \<Rightarrow> AsyncSession \<Rightarrow> AsyncSession" where
  "add post session = session\<lparr>new := new session @ [post]\<rparr>"

definition delete :: "Post \<Rightarrow> AsyncSession \<Rightarrow> AsyncSession" where
  "delete post session = session\<lparr>deleted := deleted session @ [post]\<rparr>"

text \<open>A commit that raises writes nothing; one that succeeds deletes by primary key
  and inserts the new rows.\<close>

definition commit :: "World \<Rightarrow> AsyncSession \<Rightarrow> exn + AsyncSession" where
  "commit w session =
     (case commit_raises w of
        Some e \<Rightarrow> Inl e
      | None \<Rightarrow>
          Inr (session\<lparr>posts := filter (\<lambda>p. Post_id p \<notin> set (map Post_id (deleted session)))
                                   (posts session) @ new session,
                        new := [], deleted := []\<rparr>))"

text \<open>\<^verbatim>\<open>Result.scalar_one_or_none()\<close>.\<close>

fun scalar_one_or_none :: "'a list \<Rightarrow> exn + 'a option" where
  "scalar_one_or_none [] = Inr None"
| "scalar_one_or_none [row] = Inr (Some row)"
| "scalar_one_or_none (row # row' # rows) =
     Inl (OtherException ''Multiple rows were found when one or none was required'')"

text \<open>
  \<^verbatim>\<open>select(Post).order_by(Post.created_at.desc())\<close>.  The database leaves the order
  of rows with equal timestamps open; the model keeps them in table order.
\<close>

definition order_by_created_at_desc :: "Post list \<Rightarrow> Post list" where
  "order_by_created_at_desc rows = sort_key (\<lambda>p. - Post_created_at p) rows"

section \<open>Routes and responses\<close>

text \<open>
  A route as its decorator declares it.  None of the three decorators passes
  \<^verbatim>\<open>status_code\<close>.
\<close>

record APIRoute =
  route_method :: string
  route_path :: string
  route_status_code :: "nat option"

definition create_post_route :: APIRoute where
  "create_post_route =
     \<lparr>route_method = ''POST'', route_path = ''/upload'', route_status_code = None\<rparr>"

definition get_feeds_route :: APIRoute where
  "get_feeds_route =
     \<lparr>route_method = ''GET'', route_path = ''/feeds'', route_status_code = None\<rparr>"

definition delete_post_by_id_route :: APIRoute where
  "delete_post_by_id_route =
     \<lparr>route_method = ''DELETE'', route_path = ''/posts/{post_id}'', route_status_code = None\<rparr>"

text \<open>
  The status of the HTTP response: a handler that returns answers with the status code
  of its route, 200 when the route declares none; an \<^verbatim>\<open>HTTPException\<close> answers with
  its own status code; any other exception is a server error.
\<close>

fun response_status :: "APIRoute \<Rightarrow> exn + 'a \<Rightarrow> nat" where
  "response_status route (Inr body) =
     (case route_status_code route of None \<Rightarrow> 200 | Some c \<Rightarrow> c)"
| "response_status route (Inl (HTTPException status_code detail)) = status_code"
| "response_status route (Inl (OtherException msg)) = 500"

section \<open>Post Eraser\<close>

text \<open>The body of the \<^verbatim>\<open>try\<close> block of \<^verbatim>\<open>delete_post_by_id\<close>.\<close>

definition delete_post_by_id_try ::
  "World \<Rightarrow> string \<Rightarrow> AsyncSession \<Rightarrow> User \<Rightarrow> (exn + dict) \<times> AsyncSession" where
  "delete_post_by_id_try w post_id session user =
     (case UUID w post_id of
        Inl e \<Rightarrow> (Inl e, session)
      | Inr post_id' \<Rightarrow>
          (case execute_raises w of
             Some e \<Rightarrow> (Inl e, session)
           | None \<Rightarrow>
               (case scalar_one_or_none (filter (\<lambda>p. Post_id p = post_id') (posts session)) of
                  Inl e \<Rightarrow> (Inl e, session)
                | Inr None \<Rightarrow> (Inl (HTTPException 404 ''Post not found''), session)
                | Inr (Some post) \<Rightarrow>
                    if Post_user_id post \<noteq> User_id user
                    then (Inl (HTTPException 403 ''Not authorized to delete this post''),
                          session)
                    else
                      (let session1 = delete post session
                       in case commit w session1 of
                            Inl e \<Rightarrow> (Inl e, session1)
                          | Inr session2 \<Rightarrow>
                              (Inr [(''success'', JBool True),
                                    (''message'', JStr ''Post deleted''),
                                    (''post_id'', JStr (str_uuid (Post_id post)))],
                               session2)))))"

text \<open>
  The handler: \<^verbatim>\<open>except Exception\<close> catches whatever the block raised, the two
  \<^verbatim>\<open>HTTPException\<close>s of the block included, and raises status 500 with the caught
  exception's text in the detail.
\<close>

definition delete_post_by_id ::
  "World \<Rightarrow> string \<Rightarrow> AsyncSession \<Rightarrow> User \<Rightarrow> (exn + dict) \<times> AsyncSession" where
  "delete_post_by_id w post_id session user =
     (case delete_post_by_id_try w post_id session user of
        (Inl e, session') \<Rightarrow>
          (Inl (HTTPException 500 (''Error deleting post: '' @ str_exn e)), session')
      | (Inr body, session') \<Rightarrow> (Inr body, session'))"

section \<open>Upload Handler\<close>

text \<open>
  The two exceptions that the interpreter raises in \<^verbatim>\<open>create_post\<close>:
  \<^verbatim>\<open>os.path.splitext(None)\<close> and \<^verbatim>\<open>None.startswith\<close>.
\<close>

definition TypeError_splitext :: exn where
  "TypeError_splitext =
     OtherException ''expected str, bytes or os.PathLike object, not NoneType''"

definition AttributeError_startswith :: exn where
  "AttributeError_startswith =
     OtherException (CHR 0x27 # ''NoneType'' @ CHR 0x27 # '' object has no attribute ''
                     @ CHR 0x27 # ''startswith'' @ [CHR 0x27])"

text \<open>
  The constructor call \<^verbatim>\<open>Post(user_id=..., caption=..., url=..., file_type=...,
  file_name=...)\<close> of \<^verbatim>\<open>create_post\<close>.  The identifier and the timestamps, which
  the table's column defaults fill in, come from the world.
\<close>

definition new_Post :: "World \<Rightarrow> User \<Rightarrow> string \<Rightarrow> UploadFileResult \<Rightarrow> string \<Rightarrow> Post" where
  "new_Post w user caption upload_file_result content_type =
     \<lparr>Post_id = uuid4 w,
      Post_user_id = User_id user,
      Post_caption = caption,
      Post_url = Result_url upload_file_result,
      Post_file_type = (if startswith content_type ''video/'' then ''video'' else ''image''),
      Post_file_name = Result_name upload_file_result,
      Post_created_at = utcnow w,
      Post_updated_at = utcnow w\<rparr>"

text \<open>
  The body of the \<^verbatim>\<open>try\<close> block of \<^verbatim>\<open>create_post\<close>.  It returns what the block
  returned or raised, the local \<^verbatim>\<open>temp_file_path\<close> as the block left it, the session
  and the paths that exist on disk.
\<close>

definition create_post_try ::
  "World \<Rightarrow> UploadFile \<Rightarrow> string \<Rightarrow> AsyncSession \<Rightarrow> User \<Rightarrow> string set
   \<Rightarrow> (exn + Post) \<times> string option \<times> AsyncSession \<times> string set" where
  "create_post_try w file caption session user disk =
     (case UploadFile_filename file of
        None \<Rightarrow> (Inl TypeError_splitext, None, session, disk)
      | Some filename \<Rightarrow>
          (case NamedTemporaryFile w of
             Inl e \<Rightarrow> (Inl e, None, session, disk)
           | Inr name \<Rightarrow>
               (let disk1 = insert name disk;
                    temp_file_path = Some name
                in case copyfileobj w of
                     Some e \<Rightarrow> (Inl e, temp_file_path, session, disk1)
                   | None \<Rightarrow>
                       (case upload_file w of
                          Inl e \<Rightarrow> (Inl e, temp_file_path, session, disk1)
                        | Inr upload_file_result \<Rightarrow>
                            if http_status_code upload_file_result = 200
                            then
                              (case UploadFile_content_type file of
                                 None \<Rightarrow>
                                   (Inl AttributeError_startswith,
                                    temp_file_path, session, disk1)
                               | Some content_type \<Rightarrow>
                                   (let post = new_Post w user caption upload_file_result
                                                 content_type;
                                        session1 = add post session
                                    in case commit w session1 of
                                         Inl e \<Rightarrow> (Inl e, temp_file_path, session1, disk1)
                                       | Inr session2 \<Rightarrow>
                                           (case refresh_raises w of
                                              Some e \<Rightarrow>
                                                (Inl e, temp_file_path, session2, disk1)
                                            | None \<Rightarrow>
                                                (Inr post, temp_file_path, session2, disk1))))
                            else
                              (Inl (HTTPException 500 ''File upload failed''),
                               temp_file_path, session, disk1)))))"

text \<open>
  The \<^verbatim>\<open>finally\<close> block: the path is unlinked when the variable is truthy (neither
  \<^verbatim>\<open>None\<close> nor the empty string) and the path exists.
\<close>

definition create_post_finally :: "string option \<Rightarrow> string set \<Rightarrow> string set" where
  "create_post_finally temp_file_path disk =
     (case temp_file_path of
        None \<Rightarrow> disk
      | Some name \<Rightarrow> if name \<noteq> [] \<and> name \<in> disk then disk - {name} else disk)"

text \<open>
  The handler: \<^verbatim>\<open>except Exception\<close> turns whatever the block raised into status 500,
  then the \<^verbatim>\<open>finally\<close> block runs on every path.
\<close>

definition create_post ::
  "World \<Rightarrow> UploadFile \<Rightarrow> string \<Rightarrow> AsyncSession \<Rightarrow> User \<Rightarrow> string set
   \<Rightarrow> (exn + Post) \<times> AsyncSession \<times> string set" where
  "create_post w file caption session user disk =
     (case create_post_try w file caption session user disk of
        (Inl e, temp_file_path, session', disk') \<Rightarrow>
          (Inl (HTTPException 500 (''File upload failed: '' @ str_exn e)),
           session', create_post_finally temp_file_path disk')
      | (Inr post, temp_file_path, session', disk') \<Rightarrow>
          (Inr post, session', create_post_finally temp_file_path disk'))"

section \<open>Feed Reader\<close>

text \<open>The dictionary that the loop of \<^verbatim>\<open>get_feeds\<close> builds for one post.\<close>

definition post_entry :: "User \<Rightarrow> Post \<Rightarrow> dict" where
  "post_entry user post =
     [(''id'', JStr (str_uuid (Post_id post))),
      (''user_id'', JStr (str_uuid (Post_user_id post))),
      (''caption'', JStr (Post_caption post)),
      (''url'', JStr (Post_url post)),
      (''file_type'', JStr (Post_file_type post)),
      (''file_name'', JStr (Post_file_name post)),
      (''created_at'', JTime (Post_created_at post)),
      (''updated_at'', JTime (Post_updated_at post)),
      (''is_owner'', JBool (Post_user_id post = User_id user)),
      (''email'', JStr (User_email user))]"

text \<open>The loop over \<^verbatim>\<open>total_posts\<close>, appending to \<^verbatim>\<open>posts_details\<close>.\<close>

fun feeds_loop :: "User \<Rightarrow> Post list \<Rightarrow> dict list \<Rightarrow> dict list" where
  "feeds_loop user [] posts_details = posts_details"
| "feeds_loop user (post # total_posts) posts_details =
     feeds_loop user total_posts (posts_details @ [post_entry user post])"

definition get_feeds ::
  "World \<Rightarrow> AsyncSession \<Rightarrow> User \<Rightarrow> exn + (string \<times> dict list) list" where
  "get_feeds w session user =
     (case execute_raises w of
        Some e \<Rightarrow> Inl e
      | None \<Rightarrow>
          (let total_posts = order_by_created_at_desc (posts session)
           in Inr [(''posts'', feeds_loop user total_posts [])]))"

section \<open>Auth Gateway configuration\<close>

definition SECRET :: string where
  "SECRET = ''SECRET_KEY_FOR_JWT_TOKENS''"

text \<open>The two class attributes that \<^verbatim>\<open>UserManager\<close> sets.\<close>

record UserManager =
  reset_password_token_secret :: string
  verification_token_secret :: string

definition UserManager_class :: UserManager where
  "UserManager_class =
     \<lparr>reset_password_token_secret = SECRET, verification_token_secret = SECRET\<rparr>"

record JWTStrategy =
  secret :: string
  lifetime_seconds :: nat

definition get_jwt_strategy :: JWTStrategy where
  "get_jwt_strategy = \<lparr>secret = SECRET, lifetime_seconds = 3600\<rparr>"

section \<open>Example requests\<close>

text \<open>Two users, two stored posts, two uploads and a world in which every collaborator
  answers; the worked examples below run the handlers on them.\<close>

definition alice :: User where
  "alice = \<lparr>User_id = 1, User_email = ''alice@example.com''\<rparr>"

definition bob :: User where
  "bob = \<lparr>User_id = 2, User_email = ''bob@example.com''\<rparr>"

definition example_UUID :: "string \<Rightarrow> exn + uuid" where
  "example_UUID s =
     (if s = ''00000000-0000-0000-0000-000000000007'' then Inr 7
      else if s = ''00000000-0000-0000-0000-000000000009'' then Inr 9
      else Inl (OtherException ''badly formed hexadecimal UUID string''))"

definition example_world :: World where
  "example_world =
     \<lparr>NamedTemporaryFile = Inr ''/tmp/tmpk3v9.png'',
      copyfileobj = None,
      upload_file = Inr \<lparr>http_status_code = 200,
                         Result_url = ''https://ik.imagekit.io/demo/cat_x1.png'',
                         Result_name = ''cat_x1.png''\<rparr>,
      execute_raises = None,
      commit_raises = None,
      refresh_raises = None,
      UUID = example_UUID,
      uuid4 = 9,
      utcnow = 30\<rparr>"

definition cat_png :: UploadFile where
  "cat_png = \<lparr>UploadFile_filename = Some ''cat.png'',
              UploadFile_content_type = Some ''image/png''\<rparr>"

definition clip_mp4 :: UploadFile where
  "clip_mp4 = \<lparr>UploadFile_filename = Some ''clip.mp4'',
               UploadFile_content_type = Some ''video/mp4''\<rparr>"

definition alice_post :: Post where
  "alice_post =
     \<lparr>Post_id = 7, Post_user_id = 1, Post_caption = ''hi'',
      Post_url = ''https://ik.imagekit.io/demo/dog.png'', Post_file_type = ''image'',
      Post_file_name = ''dog.png'', Post_created_at = 10, Post_updated_at = 10\<rparr>"

definition bob_post :: Post where
  "bob_post =
     \<lparr>Post_id = 8, Post_user_id = 2, Post_caption = ''yo'',
      Post_url = ''https://ik.imagekit.io/demo/run.mp4'', Post_file_type = ''video'',
      Post_file_name = ''run.mp4'', Post_created_at = 20, Post_updated_at = 20\<rparr>"

definition empty_session :: AsyncSession where
  "empty_session = \<lparr>posts = [], new = [], deleted = []\<rparr>"

definition example_session :: AsyncSession where
  "example_session = \<lparr>posts = [alice_post, bob_post], new = [], deleted = []\<rparr>"

definition broken_store_world :: World where
  "broken_store_world =
     example_world\<lparr>upload_file := Inr \<lparr>http_status_code = 503, Result_url = [],
                                           Result_name = []\<rparr>\<rparr>"

definition cat_post :: Post where
  "cat_post =
     \<lparr>Post_id = 9, Post_user_id = 1, Post_caption = ''hello'',
      Post_url = ''https://ik.imagekit.io/demo/cat_x1.png'', Post_file_type = ''image'',
      Post_file_name = ''cat_x1.png'', Post_created_at = 30, Post_updated_at = 30\<rparr>"

definition clip_post :: Post where
  "clip_post = cat_post\<lparr>Post_file_type := ''video''\<rparr>"

definition refresh_fails_world :: World where
  "refresh_fails_world =
     example_world\<lparr>refresh_raises := Some (OtherException ''connection was closed'')\<rparr>"

section \<open>Helper lemmas\<close>

text \<open>\<^verbatim>\<open>startswith\<close> is the prefix test.\<close>

lemma startswith_iff: "startswith s p \<longleftrightarrow> (\<exists>rest. s = p @ rest)"
proof
  assume "startswith s p"
  then have "s = p @ drop (length p) s"
    unfolding startswith_def by (metis append_take_drop_id)
  then show "\<exists>rest. s = p @ rest" ..
next
  assume "\<exists>rest. s = p @ rest"
  then show "startswith s p"
    unfolding startswith_def by auto
qed

lemma str_nat_404: "str_nat 404 = ''404''"
  by (simp add: str_nat.simps)

lemma str_nat_403: "str_nat 403 = ''403''"
  by (simp add: str_nat.simps)

text \<open>The loop of \<^verbatim>\<open>get_feeds\<close> appends one entry per post, in order.\<close>

lemma feeds_loop_map:
  "feeds_loop user total_posts posts_details
     = posts_details @ map (post_entry user) total_posts"
  by (induction total_posts arbitrary: posts_details) simp_all

lemma get_feeds_returns:
  assumes "execute_raises w = None"
  shows "get_feeds w session user
           = Inr [(''posts'', map (post_entry user) (order_by_created_at_desc (posts session)))]"
  using assms by (simp add: get_feeds_def feeds_loop_map)

lemma order_by_created_at_desc_mset:
  "mset (order_by_created_at_desc rows) = mset rows"
  by (simp add: order_by_created_at_desc_def)

lemma order_by_created_at_desc_sorted:
  "sorted_wrt (\<lambda>p q. Post_created_at q \<le> Post_created_at p) (order_by_created_at_desc rows)"
proof -
  have "sorted (map (\<lambda>p. - Post_created_at p) (order_by_created_at_desc rows))"
    by (simp add: order_by_created_at_desc_def)
  then show ?thesis
    by (simp add: sorted_wrt_map)
qed

lemma example_feed_order:
  "order_by_created_at_desc (posts example_session) = [bob_post, alice_post]"
  by (simp add: order_by_created_at_desc_def example_session_def alice_post_def bob_post_def)

text \<open>A committed add is in the table.\<close>

lemma commit_add_posts:
  assumes "commit w (add post session) = Inr session2"
  shows "post \<in> set (posts session2)"
  using assms by (auto simp add: commit_def add_def split: option.splits)

lemma create_post_finally_created:
  "create_post_finally (Some name) (insert name disk)
     = (if name \<noteq> [] then disk - {name} else insert name disk)"
  by (simp add: create_post_finally_def)

text \<open>
  The nine ways through \<^verbatim>\<open>create_post\<close>, each with what the collaborators did and what
  the handler answers.
\<close>

lemma create_post_paths [case_names no_filename tempfile_raises copy_raises upload_raises
    store_refuses no_content_type commit_raises refresh_raises returns]:
  obtains
    "UploadFile_filename file = None"
    "create_post w file caption session user disk
       = (Inl (HTTPException 500 (''File upload failed: '' @ str_exn TypeError_splitext)),
               session, disk)"
  | filename e where
    "UploadFile_filename file = Some filename" "NamedTemporaryFile w = Inl e"
    "create_post w file caption session user disk
       = (Inl (HTTPException 500 (''File upload failed: '' @ str_exn e)), session, disk)"
  | filename name e where
    "UploadFile_filename file = Some filename" "NamedTemporaryFile w = Inr name"
    "copyfileobj w = Some e"
    "create_post w file caption session user disk
       = (Inl (HTTPException 500 (''File upload failed: '' @ str_exn e)), session,
               create_post_finally (Some name) (insert name disk))"
  | filename name e where
    "UploadFile_filename file = Some filename" "NamedTemporaryFile w = Inr name"
    "copyfileobj w = None" "upload_file w = Inl e"
    "create_post w file caption session user disk
       = (Inl (HTTPException 500 (''File upload failed: '' @ str_exn e)), session,
               create_post_finally (Some name) (insert name disk))"
  | filename name r where
    "UploadFile_filename file = Some filename" "NamedTemporaryFile w = Inr name"
    "copyfileobj w = None" "upload_file w = Inr r" "http_status_code r \<noteq> 200"
    "create_post w file caption session user disk
       = (Inl (HTTPException 500
                      (''File upload failed: ''
                       @ str_exn (HTTPException 500 ''File upload failed''))),
               session, create_post_finally (Some name) (insert name disk))"
  | filename name r where
    "UploadFile_filename file = Some filename" "NamedTemporaryFile w = Inr name"
    "copyfileobj w = None" "upload_file w = Inr r" "http_status_code r = 200"
    "UploadFile_content_type file = None"
    "create_post w file caption session user disk
       = (Inl (HTTPException 500
                      (''File upload failed: '' @ str_exn AttributeError_startswith)),
               session, create_post_finally (Some name) (insert name disk))"
  | filename name r content_type e where
    "UploadFile_filename file = Some filename" "NamedTemporaryFile w = Inr name"
    "copyfileobj w = None" "upload_file w = Inr r" "http_status_code r = 200"
    "UploadFile_content_type file = Some content_type" "commit_raises w = Some e"
    "create_post w file caption session user disk
       = (Inl (HTTPException 500 (''File upload failed: '' @ str_exn e)),
               add (new_Post w user caption r content_type) session,
               create_post_finally (Some name) (insert name disk))"
  | filename name r content_type session2 e where
    "UploadFile_filename file = Some filename" "NamedTemporaryFile w = Inr name"
    "copyfileobj w = None" "upload_file w = Inr r" "http_status_code r = 200"
    "UploadFile_content_type file = Some content_type"
    "commit w (add (new_Post w user caption r content_type) session) = Inr session2"
    "refresh_raises w = Some e"
    "create_post w file caption session user disk
       = (Inl (HTTPException 500 (''File upload failed: '' @ str_exn e)), session2,
               create_post_finally (Some name) (insert name disk))"
  | filename name r content_type session2 where
    "UploadFile_filename file = Some filename" "NamedTemporaryFile w = Inr name"
    "copyfileobj w = None" "upload_file w = Inr r" "http_status_code r = 200"
    "UploadFile_content_type file = Some content_type"
    "commit w (add (new_Post w user caption r content_type) session) = Inr session2"
    "refresh_raises w = None"
    "create_post w file caption session user disk
       = (Inr (new_Post w user caption r content_type), session2,
               create_post_finally (Some name) (insert name disk))"
proof (cases "UploadFile_filename file")
  case None
  then show ?thesis
    using that(1) by (simp add: create_post_def create_post_try_def
        create_post_finally_def)
next
  case fn: (Some filename)
  show ?thesis
  proof (cases "NamedTemporaryFile w")
    case (Inl e)
    with fn show ?thesis
      using that(2) by (simp add: create_post_def create_post_try_def
          create_post_finally_def)
  next
    case ntf: (Inr name)
    show ?thesis
    proof (cases "copyfileobj w")
      case (Some e)
      with fn ntf show ?thesis
        using that(3) by (simp add: create_post_def create_post_try_def)
    next
      case cp: None
      show ?thesis
      proof (cases "upload_file w")
        case (Inl e)
        with fn ntf cp show ?thesis
          using that(4) by (simp add: create_post_def create_post_try_def)
      next
        case up: (Inr r)
        show ?thesis
        proof (cases "http_status_code r = 200")
          case False
          with fn ntf cp up show ?thesis
            using that(5) by (simp add: create_post_def create_post_try_def)
        next
          case ok: True
          show ?thesis
          proof (cases "UploadFile_content_type file")
            case None
            with fn ntf cp up ok show ?thesis
              using that(6) by (simp add: create_post_def create_post_try_def)
          next
            case ct: (Some content_type)
            show ?thesis
            proof (cases "commit_raises w")
              case (Some e)
              with fn ntf cp up ok ct show ?thesis
                using that(7) [of filename name r content_type e]
                by (simp add: create_post_def create_post_try_def commit_def)
            next
              case cm: None
              then have cm': "commit w (add (new_Post w user caption r content_type) session)
                = Inr ((add (new_Post w user caption r content_type) session)
                       \<lparr>posts := filter (\<lambda>p. Post_id p \<notin> set (map Post_id (deleted session)))
                                   (posts session)
                                 @ new session @ [new_Post w user caption r content_type],
                        new := [], deleted := []\<rparr>)"
                by (simp add: commit_def add_def)
              show ?thesis
              proof (cases "refresh_raises w")
                case (Some e)
                with fn ntf cp up ok ct cm' show ?thesis
                  using that(8) [of filename name r content_type _ e]
                  by (simp add: create_post_def create_post_try_def)
              next
                case None
                with fn ntf cp up ok ct cm' show ?thesis
                  using that(9) [of filename name r content_type]
                  by (simp add: create_post_def create_post_try_def)
              qed
            qed
          qed
        qed
      qed
    qed
  qed
qed

text \<open>What is on disk after \<^verbatim>\<open>create_post\<close>.\<close>

lemma create_post_disk:
  "snd (snd (create_post w file caption session user disk))
     = (case (UploadFile_filename file, NamedTemporaryFile w) of
          (Some filename, Inr name) \<Rightarrow> if name \<noteq> [] then disk - {name} else insert name disk
        | _ \<Rightarrow> disk)"
  by (cases rule: create_post_paths [of "file" w caption session user disk])
    (simp_all add: create_post_finally_created)

text \<open>The handlers on the example requests.\<close>

lemma example_upload:
  "create_post example_world cat_png ''hello'' example_session alice {''/etc/hosts''}
     = (Inr cat_post, example_session\<lparr>posts := [alice_post, bob_post, cat_post]\<rparr>,
        {''/etc/hosts''})"
  by (simp add: create_post_def create_post_try_def create_post_finally_def example_world_def
      cat_png_def example_session_def alice_def cat_post_def add_def commit_def startswith_def
      new_Post_def Let_def)

lemma example_video_upload:
  "create_post example_world clip_mp4 ''hello'' example_session alice {''/etc/hosts''}
     = (Inr clip_post, example_session\<lparr>posts := [alice_post, bob_post, clip_post]\<rparr>,
        {''/etc/hosts''})"
  by (simp add: create_post_def create_post_try_def create_post_finally_def example_world_def
      clip_mp4_def example_session_def alice_def cat_post_def clip_post_def add_def commit_def
      startswith_def new_Post_def Let_def)

lemma example_refused_upload:
  "create_post broken_store_world cat_png ''hello'' example_session alice {''/etc/hosts''}
     = (Inl (HTTPException 500 ''File upload failed: 500: File upload failed''),
        example_session, {''/etc/hosts''})"
  by (simp add: create_post_def create_post_try_def create_post_finally_def example_world_def
      broken_store_world_def cat_png_def Let_def str_nat.simps)

section \<open>Post Eraser: the statuses of a refused delete\<close>

text \<open>
  Whatever the request, \<^verbatim>\<open>delete_post_by_id\<close> answers 200 or 500: the statuses 404 and
  403 that the \<^verbatim>\<open>try\<close> block raises never leave the handler.
\<close>

lemma delete_post_by_id_status:
  "response_status delete_post_by_id_route (fst (delete_post_by_id w post_id session user))
     \<in> {200, 500}"
  by (simp add: delete_post_by_id_def delete_post_by_id_route_def split: prod.splits sum.splits)

lemma delete_post_by_id_missing:
  assumes "UUID w post_id = Inr post_id'"
    and "execute_raises w = None"
    and "post_id' \<notin> Post_id ` set (posts session)"
  shows "delete_post_by_id w post_id session user
           = (Inl (HTTPException 500 ''Error deleting post: 404: Post not found''), session)"
proof -
  have "filter (\<lambda>p. Post_id p = post_id') (posts session) = []"
    using assms(3) by (auto simp add: filter_empty_conv)
  then show ?thesis
    using assms(1,2)
    by (simp add: delete_post_by_id_def delete_post_by_id_try_def str_nat_404)
qed

lemma delete_post_by_id_non_owner:
  assumes "UUID w post_id = Inr post_id'"
    and "execute_raises w = None"
    and "filter (\<lambda>p. Post_id p = post_id') (posts session) = [post]"
    and "Post_user_id post \<noteq> User_id user"
  shows "delete_post_by_id w post_id session user
           = (Inl (HTTPException 500
                     ''Error deleting post: 403: Not authorized to delete this post''),
              session)"
  using assms
  by (simp add: delete_post_by_id_def delete_post_by_id_try_def str_nat_403)

text \<open>
  Claim C1.  A delete request whose identifier matches no post row is said to answer
  404.  On the code it does not: Alice asks to delete post 9, the table holds posts 7
  and 8, the block raises \<^verbatim>\<open>HTTPException(404)\<close>, the \<^verbatim>\<open>except Exception\<close> clause
  catches it and the response has status 500.
\<close>

theorem delete_missing_post_answers_500:
  "delete_post_by_id example_world ''00000000-0000-0000-0000-000000000009'' example_session alice
     = (Inl (HTTPException 500 ''Error deleting post: 404: Post not found''), example_session)
   \<and> response_status delete_post_by_id_route
        (fst (delete_post_by_id example_world ''00000000-0000-0000-0000-000000000009''
                example_session alice)) = 500"
  by (simp add: delete_post_by_id_def delete_post_by_id_try_def example_world_def
      example_UUID_def example_session_def alice_post_def bob_post_def str_nat_404)

text \<open>
  Claim C2.  A delete request by a caller who does not own the post is said to answer
  403 and to leave the row in place.  On the code the row stays, but the status is 500:
  Bob asks to delete Alice's post 7, the block raises \<^verbatim>\<open>HTTPException(403)\<close>, and the
  \<^verbatim>\<open>except Exception\<close> clause turns it into status 500.
\<close>

theorem delete_by_non_owner_answers_500:
  "delete_post_by_id example_world ''00000000-0000-0000-0000-000000000007'' example_session bob
     = (Inl (HTTPException 500
               ''Error deleting post: 403: Not authorized to delete this post''),
        example_session)
   \<and> response_status delete_post_by_id_route
        (fst (delete_post_by_id example_world ''00000000-0000-0000-0000-000000000007''
                example_session bob)) = 500"
  by (simp add: delete_post_by_id_def delete_post_by_id_try_def example_world_def
      example_UUID_def example_session_def alice_post_def bob_post_def bob_def str_nat_403)

section \<open>Upload Handler\<close>

text \<open>
  Claim C3, as stated: a valid upload that the store accepts answers with status 201.
  Alice's upload of \<^verbatim>\<open>cat.png\<close> is accepted by the store and returns the new post, and
  the status of the response is not 201.
\<close>

theorem upload_status_counterexample:
  "UploadFile_filename cat_png = Some ''cat.png''
   \<and> upload_file example_world
       = Inr \<lparr>http_status_code = 200, Result_url = ''https://ik.imagekit.io/demo/cat_x1.png'',
              Result_name = ''cat_x1.png''\<rparr>
   \<and> fst (create_post example_world cat_png ''hello'' example_session alice {''/etc/hosts''})
       = Inr cat_post
   \<and> response_status create_post_route
        (fst (create_post example_world cat_png ''hello'' example_session alice
                {''/etc/hosts''})) \<noteq> 201"
proof -
  have "UploadFile_filename cat_png = Some ''cat.png''"
    by (simp add: cat_png_def)
  moreover have "upload_file example_world
       = Inr \<lparr>http_status_code = 200, Result_url = ''https://ik.imagekit.io/demo/cat_x1.png'',
              Result_name = ''cat_x1.png''\<rparr>"
    by (simp add: example_world_def)
  ultimately show ?thesis
    by (simp add: example_upload create_post_route_def)
qed

text \<open>
  Claim C3, amended.  For every upload with a file name and a declared content type,
  when staging succeeds, the store answers with status 200 and the commit and the
  refresh of the session succeed, \<^verbatim>\<open>create_post\<close> returns the created post, which
  carries the caller's identifier, the caption and the store's URL and name and is a
  row of the table, and the response has status 200: the route declares no status
  code.
\<close>

theorem upload_success:
  assumes "UploadFile_filename file = Some filename"
    and "UploadFile_content_type file = Some content_type"
    and "NamedTemporaryFile w = Inr name"
    and "copyfileobj w = None"
    and "upload_file w = Inr upload_file_result"
    and "http_status_code upload_file_result = 200"
    and "commit_raises w = None"
    and "refresh_raises w = None"
  shows "\<exists>post session' disk'.
           create_post w file caption session user disk = (Inr post, session', disk')
         \<and> response_status create_post_route (Inr post) = 200
         \<and> Post_user_id post = User_id user
         \<and> Post_caption post = caption
         \<and> Post_url post = Result_url upload_file_result
         \<and> Post_file_name post = Result_name upload_file_result
         \<and> post \<in> set (posts session')"
  using assms
  by (simp add: create_post_def create_post_try_def create_post_route_def add_def commit_def
      new_Post_def Let_def)

theorem upload_success_witness:
  "\<exists>post session' disk'.
     create_post example_world cat_png ''hello'' example_session alice {''/etc/hosts''}
       = (Inr post, session', disk')
   \<and> response_status create_post_route (Inr post) = 200
   \<and> Post_user_id post = 1
   \<and> Post_caption post = ''hello''
   \<and> Post_url post = ''https://ik.imagekit.io/demo/cat_x1.png''
   \<and> Post_file_name post = ''cat_x1.png''
   \<and> post \<in> set (posts session')"
  using upload_success [of cat_png "''cat.png''" "''image/png''" example_world
      "''/tmp/tmpk3v9.png''"
      "\<lparr>http_status_code = 200, Result_url = ''https://ik.imagekit.io/demo/cat_x1.png'',
        Result_name = ''cat_x1.png''\<rparr>" "''hello''" example_session alice "{''/etc/hosts''}"]
  by (simp add: cat_png_def example_world_def alice_def)

text \<open>
  Claim C4.  For every successful upload the file type of the created post is
  \<^verbatim>\<open>video\<close> if the declared content type begins with \<^verbatim>\<open>video/\<close> and \<^verbatim>\<open>image\<close>
  otherwise; the created post is a row of the table.
\<close>

theorem upload_file_type:
  assumes "fst (create_post w file caption session user disk) = Inr post"
  shows "\<exists>content_type.
           UploadFile_content_type file = Some content_type
         \<and> Post_file_type post
             = (if \<exists>rest. content_type = ''video/'' @ rest then ''video'' else ''image'')
         \<and> post \<in> set (posts (fst (snd (create_post w file caption session user disk))))"
proof (cases rule: create_post_paths [of "file" w caption session user disk])
  case (returns filename name r content_type session2)
  from assms returns(9) have post: "post = new_Post w user caption r content_type"
    by simp
  have "Post_file_type post
          = (if \<exists>rest. content_type = ''video/'' @ rest then ''video'' else ''image'')"
    unfolding post by (simp add: new_Post_def startswith_iff)
  moreover have "post \<in> set (posts session2)"
    unfolding post using returns(7) by (rule commit_add_posts)
  ultimately show ?thesis
    using returns(6) returns(9) by simp
qed (use assms in simp_all)

theorem upload_file_type_witness:
  "fst (create_post example_world cat_png ''hello'' example_session alice {''/etc/hosts''})
     = Inr cat_post
   \<and> UploadFile_content_type cat_png = Some ''image/png''
   \<and> Post_file_type cat_post = ''image''
   \<and> fst (create_post example_world clip_mp4 ''hello'' example_session alice {''/etc/hosts''})
       = Inr clip_post
   \<and> UploadFile_content_type clip_mp4 = Some ''video/mp4''
   \<and> Post_file_type clip_post = ''video''"
proof -
  have h1: "fst (create_post example_world cat_png ''hello'' example_session alice
                   {''/etc/hosts''}) = Inr cat_post"
    by (simp add: example_upload)
  have h2: "fst (create_post example_world clip_mp4 ''hello'' example_session alice
                   {''/etc/hosts''}) = Inr clip_post"
    by (simp add: example_video_upload)
  have c1: "UploadFile_content_type cat_png = Some ''image/png''"
    by (simp add: cat_png_def)
  have c2: "UploadFile_content_type clip_mp4 = Some ''video/mp4''"
    by (simp add: clip_mp4_def)
  show ?thesis
    using h1 h2 c1 c2 upload_file_type [OF h1] upload_file_type [OF h2]
    by auto
qed

text \<open>
  Claim C7.  On every way through \<^verbatim>\<open>create_post\<close> (success, a store that refuses, any
  exception) the temporary file that staging created does not exist afterwards, and
  no other path on disk is touched.  The name of a temporary file is not empty.
\<close>

theorem temp_file_removed:
  assumes "UploadFile_filename file = Some filename"
    and "NamedTemporaryFile w = Inr name"
    and "name \<noteq> []"
  shows "name \<notin> snd (snd (create_post w file caption session user disk))
       \<and> snd (snd (create_post w file caption session user disk)) = disk - {name}"
  using assms by (simp add: create_post_disk)

theorem temp_file_removed_witness:
  "''/tmp/tmpk3v9.png''
     \<notin> snd (snd (create_post example_world cat_png ''hello'' example_session alice
                     {''/etc/hosts''}))
   \<and> snd (snd (create_post example_world cat_png ''hello'' example_session alice
                  {''/etc/hosts''})) = {''/etc/hosts''}
   \<and> ''/tmp/tmpk3v9.png''
     \<notin> snd (snd (create_post broken_store_world cat_png ''hello'' example_session alice
                     {''/etc/hosts''}))"
  using temp_file_removed [of cat_png "''cat.png''" example_world "''/tmp/tmpk3v9.png''"
      "''hello''" example_session alice "{''/etc/hosts''}"]
    temp_file_removed [of cat_png "''cat.png''" broken_store_world "''/tmp/tmpk3v9.png''"
      "''hello''" example_session alice "{''/etc/hosts''}"]
  by (simp add: cat_png_def example_world_def broken_store_world_def)

lemma example_upload_refresh_fails:
  "create_post refresh_fails_world cat_png ''hello'' example_session alice {''/etc/hosts''}
     = (Inl (HTTPException 500 ''File upload failed: connection was closed''),
        example_session\<lparr>posts := [alice_post, bob_post, cat_post]\<rparr>, {''/etc/hosts''})"
  by (simp add: create_post_def create_post_try_def create_post_finally_def example_world_def
      refresh_fails_world_def cat_png_def example_session_def alice_def cat_post_def add_def
      commit_def startswith_def new_Post_def Let_def)

text \<open>
  Claim C10, as stated: an upload that fails for any reason inserts no post row.  In
  Alice's upload of \<^verbatim>\<open>cat.png\<close> the store answers with status 200 and the commit
  succeeds; then the refresh of the session raises.  The handler answers with status
  500 and the new post is a row of the table.
\<close>

theorem failed_upload_after_commit_counterexample:
  "response_status create_post_route
     (fst (create_post refresh_fails_world cat_png ''hello'' example_session alice
             {''/etc/hosts''})) = 500
   \<and> posts example_session = [alice_post, bob_post]
   \<and> posts (fst (snd (create_post refresh_fails_world cat_png ''hello'' example_session alice
                         {''/etc/hosts''})))
       = [alice_post, bob_post, cat_post]
   \<and> posts (fst (snd (create_post refresh_fails_world cat_png ''hello'' example_session alice
                         {''/etc/hosts''})))
       \<noteq> posts example_session"
  unfolding example_upload_refresh_fails by (simp add: example_session_def)

text \<open>
  Claim C10, amended.  When the file has no name, staging or transmission raises, the
  store answers with a status other than 200, the content type is not declared or the
  commit raises, \<^verbatim>\<open>create_post\<close> answers with status 500 and the post table is
  unchanged.  Every failed upload in which the refresh does not raise leaves the post
  table unchanged.  The post table changes only when the store answered with status
  200 and the commit succeeded.
\<close>

theorem failed_upload_table_unchanged:
  "(UploadFile_filename file = None
      \<or> (\<exists>e. NamedTemporaryFile w = Inl e)
      \<or> (\<exists>e. copyfileobj w = Some e)
      \<or> (\<exists>e. upload_file w = Inl e)
      \<or> (\<exists>r. upload_file w = Inr r \<and> http_status_code r \<noteq> 200)
      \<or> UploadFile_content_type file = None
      \<or> (\<exists>e. commit_raises w = Some e)
    \<longrightarrow> (\<exists>detail. fst (create_post w file caption session user disk)
                     = Inl (HTTPException 500 detail))
        \<and> posts (fst (snd (create_post w file caption session user disk))) = posts session)
   \<and> ((\<exists>e. fst (create_post w file caption session user disk) = Inl e)
        \<and> refresh_raises w = None
    \<longrightarrow> posts (fst (snd (create_post w file caption session user disk))) = posts session)
   \<and> (posts (fst (snd (create_post w file caption session user disk))) \<noteq> posts session
    \<longrightarrow> (\<exists>r. upload_file w = Inr r \<and> http_status_code r = 200) \<and> commit_raises w = None)"
proof (cases rule: create_post_paths [of "file" w caption session user disk])
  case (commit_raises filename name r content_type e)
  then show ?thesis by (simp add: add_def)
next
  case (refresh_raises filename name r content_type session2 e)
  then show ?thesis by (auto simp add: commit_def split: option.splits)
next
  case (returns filename name r content_type session2)
  then show ?thesis by (auto simp add: commit_def split: option.splits)
qed simp_all

theorem failed_upload_table_unchanged_witness:
  "(\<exists>r. upload_file broken_store_world = Inr r \<and> http_status_code r \<noteq> 200)
   \<and> (\<exists>detail. fst (create_post broken_store_world cat_png ''hello'' example_session alice
                         {''/etc/hosts''})
                    = Inl (HTTPException 500 detail))
   \<and> refresh_raises broken_store_world = None
   \<and> posts (fst (snd (create_post broken_store_world cat_png ''hello'' example_session alice
                         {''/etc/hosts''})))
       = posts example_session
   \<and> posts (fst (snd (create_post example_world cat_png ''hello'' example_session alice
                         {''/etc/hosts''})))
       \<noteq> posts example_session
   \<and> (\<exists>r. upload_file example_world = Inr r \<and> http_status_code r = 200)
   \<and> commit_raises example_world = None"
proof -
  have h1: "\<exists>r. upload_file broken_store_world = Inr r \<and> http_status_code r \<noteq> 200"
    by (simp add: broken_store_world_def)
  have h2: "refresh_raises broken_store_world = None"
    by (simp add: broken_store_world_def example_world_def)
  have h3: "posts (fst (snd (create_post example_world cat_png ''hello'' example_session alice
                               {''/etc/hosts''})))
       \<noteq> posts example_session"
    unfolding example_upload by (simp add: example_session_def)
  show ?thesis
    using h1 h2 h3
      failed_upload_table_unchanged [of cat_png broken_store_world "''hello''" example_session
        alice "{''/etc/hosts''}"]
      failed_upload_table_unchanged [of cat_png example_world "''hello''" example_session
        alice "{''/etc/hosts''}"]
    by blast
qed

section \<open>Feed Reader\<close>

text \<open>
  Claim C5.  For every caller and every table of posts, \<^verbatim>\<open>get_feeds\<close> returns one entry
  for each row of the table, no row filtered out, in the order of creation time
  descending; each entry has the ten keys of the response and carries the identifier,
  the owner, the caption, the URL, the file type, the file name and the two timestamps
  of its row.
\<close>

theorem get_feeds_all_posts_newest_first:
  assumes "execute_raises w = None"
  shows "\<exists>total_posts posts_details.
           get_feeds w session user = Inr [(''posts'', posts_details)]
         \<and> mset total_posts = mset (posts session)
         \<and> sorted_wrt (\<lambda>p q. Post_created_at q \<le> Post_created_at p) total_posts
         \<and> list_all2
             (\<lambda>post entry.
                map fst entry
                  = [''id'', ''user_id'', ''caption'', ''url'', ''file_type'', ''file_name'',
                     ''created_at'', ''updated_at'', ''is_owner'', ''email'']
              \<and> map_of entry ''id'' = Some (JStr (str_uuid (Post_id post)))
              \<and> map_of entry ''user_id'' = Some (JStr (str_uuid (Post_user_id post)))
              \<and> map_of entry ''caption'' = Some (JStr (Post_caption post))
              \<and> map_of entry ''url'' = Some (JStr (Post_url post))
              \<and> map_of entry ''file_type'' = Some (JStr (Post_file_type post))
              \<and> map_of entry ''file_name'' = Some (JStr (Post_file_name post))
              \<and> map_of entry ''created_at'' = Some (JTime (Post_created_at post))
              \<and> map_of entry ''updated_at'' = Some (JTime (Post_updated_at post)))
             total_posts posts_details"
proof -
  let ?total = "order_by_created_at_desc (posts session)"
  let ?details = "map (post_entry user) ?total"
  have "get_feeds w session user = Inr [(''posts'', ?details)]"
    using assms by (rule get_feeds_returns)
  moreover have "mset ?total = mset (posts session)"
    by (rule order_by_created_at_desc_mset)
  moreover have "sorted_wrt (\<lambda>p q. Post_created_at q \<le> Post_created_at p) ?total"
    by (rule order_by_created_at_desc_sorted)
  moreover have "list_all2
             (\<lambda>post entry.
                map fst entry
                  = [''id'', ''user_id'', ''caption'', ''url'', ''file_type'', ''file_name'',
                     ''created_at'', ''updated_at'', ''is_owner'', ''email'']
              \<and> map_of entry ''id'' = Some (JStr (str_uuid (Post_id post)))
              \<and> map_of entry ''user_id'' = Some (JStr (str_uuid (Post_user_id post)))
              \<and> map_of entry ''caption'' = Some (JStr (Post_caption post))
              \<and> map_of entry ''url'' = Some (JStr (Post_url post))
              \<and> map_of entry ''file_type'' = Some (JStr (Post_file_type post))
              \<and> map_of entry ''file_name'' = Some (JStr (Post_file_name post))
              \<and> map_of entry ''created_at'' = Some (JTime (Post_created_at post))
              \<and> map_of entry ''updated_at'' = Some (JTime (Post_updated_at post)))
             ?total ?details"
    by (simp add: list_all2_map2 post_entry_def list_all2_same)
  ultimately show ?thesis by blast
qed

theorem get_feeds_all_posts_newest_first_witness:
  "execute_raises example_world = None
   \<and> (\<exists>total_posts posts_details.
           get_feeds example_world example_session alice = Inr [(''posts'', posts_details)]
         \<and> mset total_posts = mset (posts example_session)
         \<and> sorted_wrt (\<lambda>p q. Post_created_at q \<le> Post_created_at p) total_posts
         \<and> list_all2
             (\<lambda>post entry.
                map fst entry
                  = [''id'', ''user_id'', ''caption'', ''url'', ''file_type'', ''file_name'',
                     ''created_at'', ''updated_at'', ''is_owner'', ''email'']
              \<and> map_of entry ''id'' = Some (JStr (str_uuid (Post_id post)))
              \<and> map_of entry ''user_id'' = Some (JStr (str_uuid (Post_user_id post)))
              \<and> map_of entry ''caption'' = Some (JStr (Post_caption post))
              \<and> map_of entry ''url'' = Some (JStr (Post_url post))
              \<and> map_of entry ''file_type'' = Some (JStr (Post_file_type post))
              \<and> map_of entry ''file_name'' = Some (JStr (Post_file_name post))
              \<and> map_of entry ''created_at'' = Some (JTime (Post_created_at post))
              \<and> map_of entry ''updated_at'' = Some (JTime (Post_updated_at post)))
             total_posts posts_details)"
proof -
  have h: "execute_raises example_world = None"
    by (simp add: example_world_def)
  show ?thesis
    using h get_feeds_all_posts_newest_first [OF h, of example_session alice] by simp
qed

text \<open>
  Claim C6.  In a feed response the \<^verbatim>\<open>is_owner\<close> field of the entry of a post is true
  if and only if the owning user identifier of that post equals the caller's
  identifier.
\<close>

theorem get_feeds_is_owner:
  assumes "get_feeds w session user = Inr [(''posts'', posts_details)]"
  shows "list_all2
           (\<lambda>post entry.
              map_of entry ''id'' = Some (JStr (str_uuid (Post_id post)))
            \<and> map_of entry ''user_id'' = Some (JStr (str_uuid (Post_user_id post)))
            \<and> map_of entry ''is_owner'' = Some (JBool (Post_user_id post = User_id user)))
           (order_by_created_at_desc (posts session)) posts_details"
proof -
  have "execute_raises w = None"
    using assms by (simp add: get_feeds_def split: option.splits)
  then have "posts_details = map (post_entry user) (order_by_created_at_desc (posts session))"
    using assms by (simp add: get_feeds_returns)
  then show ?thesis
    by (simp add: list_all2_map2 post_entry_def list_all2_same)
qed

theorem get_feeds_is_owner_witness:
  "get_feeds example_world example_session alice
     = Inr [(''posts'', [post_entry alice bob_post, post_entry alice alice_post])]
   \<and> map_of (post_entry alice bob_post) ''is_owner'' = Some (JBool False)
   \<and> map_of (post_entry alice alice_post) ''is_owner'' = Some (JBool True)"
proof -
  have h: "get_feeds example_world example_session alice
     = Inr [(''posts'', [post_entry alice bob_post, post_entry alice alice_post])]"
    by (simp add: get_feeds_def example_world_def example_feed_order)
  show ?thesis
    using h get_feeds_is_owner [OF h]
    by (simp add: example_feed_order alice_def alice_post_def bob_post_def)
qed

text \<open>
  Claim C8.  In a feed response the \<^verbatim>\<open>email\<close> field of every entry is the caller's
  email, also for the posts that the caller does not own.
\<close>

theorem get_feeds_email_is_callers:
  assumes "get_feeds w session user = Inr [(''posts'', posts_details)]"
  shows "length posts_details = length (posts session)
       \<and> list_all (\<lambda>entry. map_of entry ''email'' = Some (JStr (User_email user))) posts_details"
proof -
  have "execute_raises w = None"
    using assms by (simp add: get_feeds_def split: option.splits)
  then have eq: "posts_details = map (post_entry user) (order_by_created_at_desc (posts session))"
    using assms by (simp add: get_feeds_returns)
  have "length (order_by_created_at_desc (posts session)) = length (posts session)"
    by (simp add: order_by_created_at_desc_def)
  with eq show ?thesis
    by (simp add: list_all_iff post_entry_def)
qed

theorem get_feeds_email_is_callers_witness:
  "get_feeds example_world example_session alice
     = Inr [(''posts'', [post_entry alice bob_post, post_entry alice alice_post])]
   \<and> Post_user_id bob_post \<noteq> User_id alice
   \<and> map_of (post_entry alice bob_post) ''email'' = Some (JStr ''alice@example.com'')
   \<and> map_of (post_entry alice alice_post) ''email'' = Some (JStr ''alice@example.com'')"
proof -
  have h: "get_feeds example_world example_session alice
     = Inr [(''posts'', [post_entry alice bob_post, post_entry alice alice_post])]"
    by (simp add: get_feeds_def example_world_def example_feed_order)
  show ?thesis
    using h get_feeds_email_is_callers [OF h]
    by (simp add: alice_def bob_post_def)
qed

section \<open>Auth Gateway\<close>

text \<open>
  Claim C9.  The secret of the JWT strategy, the password reset token secret and the
  verification token secret are one and the same static string.
\<close>

theorem single_static_secret:
  "secret get_jwt_strategy = SECRET
   \<and> reset_password_token_secret UserManager_class = SECRET
   \<and> verification_token_secret UserManager_class = SECRET
   \<and> SECRET = ''SECRET_KEY_FOR_JWT_TOKENS''"
  by (simp add: get_jwt_strategy_def UserManager_class_def SECRET_def)

end
